theory Spec2Isabelle
  imports Main "HOL-Library.Char_ord" "HOL-Library.List_Lexorder"
begin

section \<open>JavaScript values, strings and numbers used by script.js\<close>

text \<open>
  What reading a property of a parsed row gives: \<open>undefined\<close>, a string, or the member of
  \<open>Object.prototype\<close> of that name, which a row that has no such field of its own
  inherits. Strings are ASCII character lists; the case mappings below are the ASCII part
  of \<open>toLowerCase\<close> and \<open>toUpperCase\<close>.
\<close>

datatype jsval = Undefined | Str string | Inherited string

text \<open>
  A row is the object one record of the table was parsed into, as the list of its own
  properties in the order \<open>Object.keys\<close> enumerates them.
\<close>

type_synonym row = "(string \<times> string) list"

definition Object_keys :: "row \<Rightarrow> string list" where
  "Object_keys item = map fst item"

definition Object_values :: "row \<Rightarrow> string list" where
  "Object_values item = map snd item"

text \<open>The property names every object inherits from \<open>Object.prototype\<close>.\<close>

definition objectPrototypeMembers :: "string list" where
  "objectPrototypeMembers =
     [''constructor'', ''toString'', ''toLocaleString'', ''valueOf'', ''hasOwnProperty'',
      ''isPrototypeOf'', ''propertyIsEnumerable'', ''__defineGetter__'', ''__defineSetter__'',
      ''__lookupGetter__'', ''__lookupSetter__'', ''__proto__'']"

text \<open>
  Property access \<open>row[key]\<close>: the row's own property, else the inherited member of that
  name, else \<open>undefined\<close>.
\<close>

definition get :: "row \<Rightarrow> string \<Rightarrow> jsval" where
  "get item key =
     (case map_of item key of
        Some v \<Rightarrow> Str v
      | None \<Rightarrow> if key \<in> set objectPrototypeMembers then Inherited key else Undefined)"

text \<open>The inherited members are functions, and \<open>__proto__\<close> an object: all truthy.\<close>

fun truthy :: "jsval \<Rightarrow> bool" where
  "truthy Undefined = False"
| "truthy (Str s) = (s \<noteq> [])"
| "truthy (Inherited k) = True"

text \<open>The operators \<open>&&\<close> and \<open>||\<close> return one of their operands.\<close>

definition js_and :: "jsval \<Rightarrow> jsval \<Rightarrow> jsval" where
  "js_and a b = (if truthy a then b else a)"

definition js_or :: "jsval \<Rightarrow> jsval \<Rightarrow> jsval" where
  "js_or a b = (if truthy a then a else b)"

text \<open>
  The text of a built-in function is left to the engine by the language; the text here is
  the one V8 gives. \<open>Object.prototype.constructor\<close> is the function \<open>Object\<close>.
\<close>

fun ToString :: "jsval \<Rightarrow> string" where
  "ToString Undefined = ''undefined''"
| "ToString (Str s) = s"
| "ToString (Inherited k) =
     (if k = ''__proto__'' then ''[object Object]''
      else ''function '' @ (if k = ''constructor'' then ''Object'' else k) @
           ''() { [native code] }'')"

definition toLowerChar :: "char \<Rightarrow> char" where
  "toLowerChar c =
     (case map_of (zip ''ABCDEFGHIJKLMNOPQRSTUVWXYZ'' ''abcdefghijklmnopqrstuvwxyz'') c of
        None \<Rightarrow> c
      | Some d \<Rightarrow> d)"

definition toUpperChar :: "char \<Rightarrow> char" where
  "toUpperChar c =
     (case map_of (zip ''abcdefghijklmnopqrstuvwxyz'' ''ABCDEFGHIJKLMNOPQRSTUVWXYZ'') c of
        None \<Rightarrow> c
      | Some d \<Rightarrow> d)"

definition toLowerCase :: "string \<Rightarrow> string" where
  "toLowerCase s = map toLowerChar s"

definition toUpperCase :: "string \<Rightarrow> string" where
  "toUpperCase s = map toUpperChar s"

text \<open>\<open>s.replace(/_/g, ' ')\<close>\<close>

definition replace_underscores :: "string \<Rightarrow> string" where
  "replace_underscores s = map (\<lambda>c. if c = CHR ''_'' then CHR '' '' else c) s"

fun startsWith :: "string \<Rightarrow> string \<Rightarrow> bool" where
  "startsWith s [] = True"
| "startsWith [] (p # ps) = False"
| "startsWith (c # cs) (p # ps) = (c = p \<and> startsWith cs ps)"

text \<open>\<open>s.includes(t)\<close>: \<open>t\<close> occurs in \<open>s\<close> at some position.\<close>

fun str_includes :: "string \<Rightarrow> string \<Rightarrow> bool" where
  "str_includes [] t = (t = [])"
| "str_includes (c # cs) t = (startsWith (c # cs) t \<or> str_includes cs t)"

text \<open>\<open>xs.join(sep)\<close>\<close>

fun join :: "string list \<Rightarrow> string \<Rightarrow> string" where
  "join [] sep = []"
| "join [x] sep = x"
| "join (x # y # ys) sep = x @ sep @ join (y # ys) sep"

subsection \<open>parseFloat\<close>

text \<open>
  The result of \<open>parseFloat\<close>: \<open>NaN\<close>, an infinity with its sign, or a decimal literal
  \<open>\<plusminus> m * 10 ^ e\<close> that the language rounds to a double. The rounding of a finite value is
  not computed; a literal at or above the rounding boundary of the largest double is an
  infinity.
\<close>

datatype jsnum = NaN | Infinity bool | Num bool nat int

definition isNaN :: "jsnum \<Rightarrow> bool" where
  "isNaN n = (n = NaN)"

fun isFinite :: "jsnum \<Rightarrow> bool" where
  "isFinite (Num neg m e) = True"
| "isFinite n = False"

definition isWhiteSpace :: "char \<Rightarrow> bool" where
  "isWhiteSpace c = (c \<in> set [CHR 0x09, CHR 0x0A, CHR 0x0B, CHR 0x0C, CHR 0x0D, CHR '' ''])"

definition isDigit :: "char \<Rightarrow> bool" where
  "isDigit c = (c \<in> set ''0123456789'')"

definition digitsVal :: "string \<Rightarrow> nat" where
  "digitsVal ds = foldl (\<lambda>n c. 10 * n + (of_char c - 48)) 0 ds"

definition overflows :: "nat \<Rightarrow> int \<Rightarrow> bool" where
  "overflows m e =
     (if 0 \<le> e then 2 ^ 1024 - 2 ^ 970 \<le> m * 10 ^ nat e
      else (2 ^ 1024 - 2 ^ 970) * 10 ^ nat (- e) \<le> m)"

definition mkNum :: "bool \<Rightarrow> nat \<Rightarrow> int \<Rightarrow> jsnum" where
  "mkNum neg m e = (if overflows m e then Infinity neg else Num neg m e)"

text \<open>The exponent part, when one follows the mantissa: \<open>e\<close> or \<open>E\<close>, a sign, digits.\<close>

definition signedInteger :: "string \<Rightarrow> int" where
  "signedInteger s =
     (case s of
        [] \<Rightarrow> 0
      | c # cs \<Rightarrow>
          if c = CHR ''+'' then int (digitsVal (takeWhile isDigit cs))
          else if c = CHR ''-'' then - int (digitsVal (takeWhile isDigit cs))
          else int (digitsVal (takeWhile isDigit s)))"

definition hasDigits :: "string \<Rightarrow> bool" where
  "hasDigits s =
     (case s of
        [] \<Rightarrow> False
      | c # cs \<Rightarrow>
          if c = CHR ''+'' \<or> c = CHR ''-'' then takeWhile isDigit cs \<noteq> []
          else isDigit c)"

definition exponentPart :: "string \<Rightarrow> int" where
  "exponentPart s =
     (case s of
        [] \<Rightarrow> 0
      | c # cs \<Rightarrow>
          if (c = CHR ''e'' \<or> c = CHR ''E'') \<and> hasDigits cs then signedInteger cs else 0)"

text \<open>The longest prefix that is an unsigned decimal literal, or \<open>Infinity\<close>.\<close>

definition strUnsignedDecimalLiteral :: "bool \<Rightarrow> string \<Rightarrow> jsnum" where
  "strUnsignedDecimalLiteral neg s =
     (if startsWith s ''Infinity'' then Infinity neg
      else
        let ip = takeWhile isDigit s; r1 = dropWhile isDigit s
        in case r1 of
             [] \<Rightarrow> if ip = [] then NaN else mkNum neg (digitsVal ip) 0
           | c # r2 \<Rightarrow>
               if c = CHR ''.'' then
                 let fp = takeWhile isDigit r2; r3 = dropWhile isDigit r2
                 in if ip = [] \<and> fp = [] then NaN
                    else mkNum neg (digitsVal (ip @ fp)) (exponentPart r3 - int (length fp))
               else if ip = [] then NaN
               else mkNum neg (digitsVal ip) (exponentPart r1))"

definition parseFloat :: "jsval \<Rightarrow> jsnum" where
  "parseFloat v =
     (let s = dropWhile isWhiteSpace (ToString v)
      in case s of
           [] \<Rightarrow> NaN
         | c # cs \<Rightarrow>
             if c = CHR ''+'' then strUnsignedDecimalLiteral False cs
             else if c = CHR ''-'' then strUnsignedDecimalLiteral True cs
             else strUnsignedDecimalLiteral False s)"

section \<open>The page: marker layer, stat displays, console, filter controls\<close>

text \<open>
  The three emoji of the marker icons: the pin (default), the beer mug (Drinks) and the
  plate of pasta (Food).
\<close>

datatype emoji = Pin | Beer | Pasta

text \<open>A marker as \<open>createMarkers\<close> builds it: position, icon and bound popup.\<close>

record marker =
  lat :: jsnum
  lng :: jsnum
  icon :: emoji
  popup :: string

datatype error = HTTPError nat | NetworkError | TypeError

text \<open>
  The diagnostic lines of the console that name a row or an error. The progress lines
  (counts, headers, first rows) carry no state and are left out.
\<close>

datatype logEntry =
    RowMissingCoordinates row
  | InvalidCoordinates row
  | ErrorCreatingMarker row
  | ErrorLoadingCSV error

text \<open>
  A dropdown of the filter panel: the text of the label before it, the text assigned to
  its \<open>innerHTML\<close>, and its selected value. Which option elements the page builds from
  that text is the work of the browser's HTML parser.
\<close>

record select =
  label_text :: string
  innerHTML :: string
  sel_value :: string

datatype control = SearchGroup | FilterGroup select

text \<open>
  The state script.js reads and writes: the layers of the marker cluster group, the numbers
  written to the elements \<open>total-markers\<close>, \<open>food-drink-markers\<close> and \<open>visible-markers\<close>,
  the console, and the children of the element \<open>filters\<close>.
\<close>

record page =
  layers :: "marker list"
  total_markers :: nat
  food_drink_markers :: nat
  visible_markers :: nat
  console :: "logEntry list"
  filtersDiv :: "control list"

text \<open>The page as script.js finds it when it starts: line 10 creates the cluster group empty.\<close>

definition initialPage :: page where
  "initialPage =
     \<lparr>layers = [], total_markers = 0, food_drink_markers = 0, visible_markers = 0,
      console = [], filtersDiv = []\<rparr>"

section \<open>createMarkers\<close>

definition isFoodDrink :: "row \<Rightarrow> bool" where
  "isFoodDrink row =
     (truthy (get row ''category'') \<and>
      (let category = toLowerCase (ToString (get row ''category''))
       in str_includes category ''food'' \<or> str_includes category ''restaurant'' \<or>
          str_includes category ''cafe'' \<or> str_includes category ''bar''))"

definition chooseEmoji :: "row \<Rightarrow> emoji" where
  "chooseEmoji row =
     (if get row ''categoriesPrimary.name'' = Str ''Drinks'' then Beer
      else if get row ''categoriesPrimary.name'' = Str ''Food'' then Pasta
      else Pin)"

definition popupContent :: "row \<Rightarrow> string" where
  \<open>popupContent row =
     (let title = ToString (js_or (get row ''name'') (get row ''title''));
          p0 = ''<div class="popup-content">'';
          p1 = (if truthy (js_or (get row ''name'') (get row ''title''))
                then p0 @ ''<h3>'' @ title @ ''</h3>'' else p0);
          p2 = (if truthy (get row ''subcategoriesPrimary.name'')
                then p1 @ ''<div class="subcategory">'' @
                     ToString (get row ''subcategoriesPrimary.name'') @ ''</div>''
                else p1);
          p3 = (if truthy (get row ''urls.website'')
                then p2 @ ''<div class="website"><a href="'' @ ToString (get row ''urls.website'') @
                     ''" target="_blank">Website</a></div>''
                else p2);
          p4 = (if truthy (get row ''image'')
                then p3 @ ''<img src="'' @ ToString (get row ''image'') @ ''" alt="Image for '' @
                     title @ ''" class="popup-image">''
                else p3);
          p5 = (if truthy (get row ''address'')
                then (let a = p4 @ ''<p class="address"><strong>Address:</strong> '' @
                              ToString (get row ''address'');
                          b = (if truthy (get row ''postcode'')
                               then a @ '', '' @ ToString (get row ''postcode'') else a)
                      in b @ ''</p>'')
                else p4);
          p6 = (if truthy (get row ''category'')
                then p5 @ ''<p><strong>Category:</strong> '' @ ToString (get row ''category'') @
                     ''</p>''
                else p5)
      in p6 @ ''</div>'')\<close>

text \<open>The marker lines 87 to 136 build for a row.\<close>

definition markerOf :: "row \<Rightarrow> marker" where
  "markerOf row =
     \<lparr>lat = parseFloat (get row ''latitude''), lng = parseFloat (get row ''longitude''),
      icon = chooseEmoji row, popup = popupContent row\<rparr>"

text \<open>The coordinate check of lines 67 to 73.\<close>

definition invalidCoordinates :: "row \<Rightarrow> bool" where
  "invalidCoordinates row =
     (isNaN (parseFloat (get row ''latitude'')) \<or> isNaN (parseFloat (get row ''longitude'')))"

text \<open>The state of one pass of the loop: the page and the two local counters.\<close>

record pass =
  pg :: page
  foodDrinkCount :: nat
  totalMarkers :: nat

text \<open>
  The body of the \<open>forEach\<close> callback, lines 66 to 145. The map library is not part of the
  repository: \<open>raises m\<close> says that one of its calls for the marker \<open>m\<close> (\<open>L.divIcon\<close>,
  \<open>L.marker\<close>, \<open>bindPopup\<close>, \<open>addLayer\<close>) throws; a call that throws adds no layer. The
  \<open>catch\<close> block logs the row and the loop goes on.
\<close>

definition forEachRow :: "(marker \<Rightarrow> bool) \<Rightarrow> pass \<Rightarrow> row \<Rightarrow> pass" where
  "forEachRow raises s row =
     (if invalidCoordinates row
      then s\<lparr>pg := (pg s)\<lparr>console := console (pg s) @ [InvalidCoordinates row]\<rparr>\<rparr>
      else
        let s1 = (if isFoodDrink row then s\<lparr>foodDrinkCount := foodDrinkCount s + 1\<rparr> else s)
        in if raises (markerOf row)
           then s1\<lparr>pg := (pg s1)\<lparr>console := console (pg s1) @ [ErrorCreatingMarker row]\<rparr>\<rparr>
           else s1\<lparr>pg := (pg s1)\<lparr>layers := layers (pg s1) @ [markerOf row]\<rparr>,
                   totalMarkers := totalMarkers s1 + 1\<rparr>)"

definition createMarkers :: "(marker \<Rightarrow> bool) \<Rightarrow> row list \<Rightarrow> page \<Rightarrow> page" where
  "createMarkers raises rows st =
     (let s0 = \<lparr>pg = st\<lparr>layers := []\<rparr>, foodDrinkCount = 0, totalMarkers = 0\<rparr>;
          s = foldl (forEachRow raises) s0 rows
      in (pg s)\<lparr>total_markers := totalMarkers s,
                food_drink_markers := foodDrinkCount s,
                visible_markers := totalMarkers s\<rparr>)"

section \<open>createFilterControls and applyFilters\<close>

text \<open>
  What a caller holds in \<open>data\<close>: an array of rows, or \<open>undefined\<close>.
\<close>

datatype jsdata = UndefinedData | Rows "row list"

text \<open>\<open>[...new Set(xs)]\<close>: the distinct elements, each at its first occurrence.\<close>

fun newSet :: "'a list \<Rightarrow> 'a list" where
  "newSet [] = []"
| "newSet (x # xs) = x # filter (\<lambda>y. y \<noteq> x) (newSet xs)"

text \<open>
  Lines 183 to 185, as the texts line 197 writes. \<open>sort\<close> compares the values by their
  texts, so the texts of the sorted values are the sorted texts.
\<close>

definition uniqueValues :: "row list \<Rightarrow> string \<Rightarrow> string list" where
  "uniqueValues data column =
     sort (map ToString (filter truthy (newSet (map (\<lambda>item. get item column) data))))"

text \<open>Lines 172 to 180: the columns are the keys of \<open>data[0] || {}\<close>.\<close>

definition columns :: "row list \<Rightarrow> string list" where
  "columns data = Object_keys (case data of [] \<Rightarrow> [] | item # _ \<Rightarrow> item)"

definition filterableColumns :: "row list \<Rightarrow> string list" where
  "filterableColumns data =
     filter (\<lambda>col. col \<noteq> ''latitude'' \<and> col \<noteq> ''longitude'' \<and> col \<noteq> ''name'' \<and> col \<noteq> ''title'')
       (columns data)"

text \<open>
  The template of line 197 for one value and the template of lines 195 to 198 for the
  dropdown of a column. The values are written as they are, with no escaping.
\<close>

definition optionHTML :: "string \<Rightarrow> string" where
  \<open>optionHTML v = ''<option value="'' @ v @ ''">'' @ v @ ''</option>''\<close>

definition selectHTML :: "string \<Rightarrow> string list \<Rightarrow> string" where
  \<open>selectHTML column uv =
     ''\<newline>                <option value="">All '' @ column @ ''</option>\<newline>                '' @
     join (map optionHTML uv) [] @ ''\<newline>            ''\<close>

text \<open>
  The body of the \<open>forEach\<close> of lines 182 to 204: the filter groups it appends for one
  column, none or one.
\<close>

definition filterGroup :: "row list \<Rightarrow> string \<Rightarrow> select list" where
  "filterGroup data column =
     (let uv = uniqueValues data column
      in if length uv > 0 \<and> length uv < 50
         then [\<lparr>label_text = toUpperCase (replace_underscores column),
                innerHTML = selectHTML column uv, sel_value = []\<rparr>]
         else [])"

definition filterGroups :: "row list \<Rightarrow> select list" where
  "filterGroups data = concat (map (filterGroup data) (filterableColumns data))"

text \<open>
  \<open>createFilterControls\<close> empties the panel and appends the search box before it reads
  \<open>data[0]\<close>, which throws a TypeError when \<open>data\<close> is \<open>undefined\<close>.
\<close>

definition createFilterControls :: "jsdata \<Rightarrow> page \<Rightarrow> (error + unit) \<times> page" where
  "createFilterControls data st =
     (let st1 = st\<lparr>filtersDiv := [SearchGroup]\<rparr>
      in case data of
           UndefinedData \<Rightarrow> (Inl TypeError, st1)
         | Rows rs \<Rightarrow>
             (Inr (), st1\<lparr>filtersDiv := filtersDiv st1 @ map FilterGroup (filterGroups rs)\<rparr>))"

text \<open>
  The callback of \<open>data.filter\<close>, lines 217 to 231, for the lowered search term and the list
  of pairs \<open>{column, value}\<close>.
\<close>

definition filterItem :: "string \<Rightarrow> (string \<times> string) list \<Rightarrow> row \<Rightarrow> bool" where
  "filterItem searchTerm filterValues item =
     (if searchTerm \<noteq> [] \<and>
         \<not> str_includes (toLowerCase (join (Object_values item) '' '')) searchTerm
      then False
      else list_all (\<lambda>(column, v). if v = [] then True else get item column = Str v)
             filterValues)"

text \<open>
  Lines 211 to 215: the column of a dropdown is read back from the text of its label.
\<close>

definition filterValuesOf :: "select list \<Rightarrow> (string \<times> string) list" where
  "filterValuesOf filterSelects =
     map (\<lambda>sel. (toLowerCase (label_text sel), sel_value sel)) filterSelects"

definition filteredData :: "row list \<Rightarrow> string \<Rightarrow> select list \<Rightarrow> row list" where
  "filteredData data searchValue filterSelects =
     filter (filterItem (toLowerCase searchValue) (filterValuesOf filterSelects)) data"

text \<open>
  \<open>applyFilters\<close>, for the rows the closure holds, the value of the search box and the
  dropdowns as the user left them.
\<close>

definition applyFilters ::
  "(marker \<Rightarrow> bool) \<Rightarrow> row list \<Rightarrow> string \<Rightarrow> select list \<Rightarrow> page \<Rightarrow> page" where
  "applyFilters raises data searchValue filterSelects st =
     createMarkers raises (filteredData data searchValue filterSelects) st"

section \<open>loadCSV and the handler of DOMContentLoaded\<close>

datatype response = Response (ok: bool) (status: nat) (body: string)

text \<open>How the promise of \<open>fetch\<close> settles: rejected (transport failure) or with a response.\<close>

datatype fetched = Rejected | Fulfilled response

text \<open>Lines 39 to 45.\<close>

definition hasCoords :: "row \<Rightarrow> jsval" where
  "hasCoords row = js_and (get row ''latitude'') (get row ''longitude'')"

definition validRows :: "row list \<Rightarrow> row list" where
  "validRows rows = filter (\<lambda>row. truthy (hasCoords row)) rows"

text \<open>The first \<open>then\<close>, lines 22 to 28.\<close>

definition checkResponse :: "response \<Rightarrow> error + string" where
  "checkResponse r = (if \<not> ok r then Inl (HTTPError (status r)) else Inr (body r))"

text \<open>
  The second \<open>then\<close>, lines 29 to 49. The parser is not part of the repository: \<open>parse\<close> is
  \<open>Papa.parse(csvText, {header: true}).data\<close>. \<open>Object.keys(rows[0])\<close> throws a TypeError
  when no row was parsed.
\<close>

definition parseAndRender ::
  "(string \<Rightarrow> row list) \<Rightarrow> (marker \<Rightarrow> bool) \<Rightarrow> string \<Rightarrow> page \<Rightarrow> error + page" where
  "parseAndRender parse raises csvText st =
     (let rows = parse csvText
      in if rows = [] then Inl TypeError
         else
           let st1 = st\<lparr>console := console st @
                       map RowMissingCoordinates (filter (\<lambda>row. \<not> truthy (hasCoords row)) rows)\<rparr>
           in Inr (createMarkers raises (validRows rows) st1))"

text \<open>The \<open>catch\<close>, lines 50 to 52.\<close>

definition catchError :: "error \<Rightarrow> page \<Rightarrow> page" where
  "catchError e st = st\<lparr>console := console st @ [ErrorLoadingCSV e]\<rparr>"

text \<open>The whole promise chain of lines 21 to 52, run when the fetch has settled.\<close>

definition chain ::
  "(string \<Rightarrow> row list) \<Rightarrow> (marker \<Rightarrow> bool) \<Rightarrow> fetched \<Rightarrow> page \<Rightarrow> page" where
  "chain parse raises f st =
     (case (case f of Rejected \<Rightarrow> Inl NetworkError | Fulfilled r \<Rightarrow> checkResponse r) of
        Inl e \<Rightarrow> catchError e st
      | Inr csvText \<Rightarrow>
          (case parseAndRender parse raises csvText st of
             Inl e \<Rightarrow> catchError e st
           | Inr st' \<Rightarrow> st'))"

text \<open>
  \<open>loadCSV\<close> starts the fetch and has no \<open>return\<close>: the promise it returns is
  fulfilled with \<open>undefined\<close>, and the promise chain is left pending, to run on the page as
  it is when the fetch settles. The first component is what the caller awaits (\<open>Inl\<close> a
  rejection), the second the pending chain.
\<close>

definition loadCSV ::
  "(string \<Rightarrow> row list) \<Rightarrow> (marker \<Rightarrow> bool) \<Rightarrow> fetched \<Rightarrow>
     (error + jsdata) \<times> (page \<Rightarrow> page)" where
  "loadCSV parse raises f = (Inr UndefinedData, chain parse raises f)"

text \<open>
  Lines 241 to 245, then the pending chain. An awaited promise that rejects throws in the
  handler; \<open>createMarkers(data)\<close> reads \<open>rows.length\<close>, a TypeError on \<open>undefined\<close>. The
  first component is how the handler ends.
\<close>

definition onDOMContentLoaded ::
  "(string \<Rightarrow> row list) \<Rightarrow> (marker \<Rightarrow> bool) \<Rightarrow> fetched \<Rightarrow> page \<Rightarrow> (error + unit) \<times> page" where
  "onDOMContentLoaded parse raises f st =
     (let (awaited, pending) = loadCSV parse raises f;
          (r, st') =
            (case awaited of
               Inl e \<Rightarrow> (Inl e, st)
             | Inr data \<Rightarrow>
                 (case createFilterControls data st of
                    (Inl e, st1) \<Rightarrow> (Inl e, st1)
                  | (Inr u, st1) \<Rightarrow>
                      (case data of
                         UndefinedData \<Rightarrow> (Inl TypeError, st1)
                       | Rows rs \<Rightarrow> (Inr (), createMarkers raises rs st1))))
      in (r, pending st'))"

section \<open>What a pass renders and logs\<close>

text \<open>
  The markers a pass adds for a row sequence, and the console lines it writes for one row.
\<close>

definition rendered :: "(marker \<Rightarrow> bool) \<Rightarrow> row list \<Rightarrow> marker list" where
  "rendered raises rows =
     map markerOf (filter (\<lambda>r. \<not> invalidCoordinates r \<and> \<not> raises (markerOf r)) rows)"

definition logged :: "(marker \<Rightarrow> bool) \<Rightarrow> row \<Rightarrow> logEntry list" where
  "logged raises r =
     (if invalidCoordinates r then [InvalidCoordinates r]
      else if raises (markerOf r) then [ErrorCreatingMarker r] else [])"

section \<open>Predicates of the statements\<close>

text \<open>A row has text under a key: the property is present and not the empty string.\<close>

definition hasText :: "row \<Rightarrow> string \<Rightarrow> bool" where
  "hasText item key = (case map_of item key of None \<Rightarrow> False | Some v \<Rightarrow> v \<noteq> [])"

text \<open>The distinct non-empty values of a column across the rows.\<close>

definition distinctValues :: "row list \<Rightarrow> string \<Rightarrow> string set" where
  "distinctValues data column =
     {v. v \<noteq> [] \<and> (\<exists>item \<in> set data. map_of item column = Some v)}"

section \<open>Example rows\<close>

definition rowCafe :: row where
  "rowCafe = [(''latitude'', ''40.7''), (''longitude'', ''-74.0''), (''category'', ''Cafe'')]"

definition rowBad :: row where
  "rowBad = [(''latitude'', ''bad''), (''longitude'', ''-74.0''), (''category'', ''Food'')]"

definition rowBar :: row where
  "rowBar = [(''latitude'', ''40.8''), (''longitude'', ''-74.0''), (''category'', ''Bar'')]"

definition rowFood :: row where
  "rowFood = [(''latitude'', ''40.9''), (''longitude'', ''-74.0''), (''category'', ''Food'')]"

definition rowInfinity :: row where
  "rowInfinity = [(''latitude'', ''Infinity''), (''longitude'', ''-74.0'')]"

text \<open>A first record with its trailing field missing, as the parser delivers a short line.\<close>

definition rowShort :: row where
  "rowShort = [(''latitude'', ''40.7''), (''longitude'', ''-74.0'')]"

definition rowAcme :: row where
  "rowAcme = [(''latitude'', ''40.7''), (''longitude'', ''-74.0''), (''constructor'', ''Acme'')]"

definition rowFoodVenue :: row where
  "rowFoodVenue =
     [(''latitude'', ''40.7''), (''longitude'', ''-74.0''), (''categoriesPrimary.name'', ''Food'')]"

definition rowBlueBar :: row where
  "rowBlueBar = [(''name'', ''Blue Bar''), (''category'', ''Bar'')]"

text \<open>A map library whose calls throw for the markers at latitude 40.8 and for no other.\<close>

definition raisesAt408 :: "marker \<Rightarrow> bool" where
  "raisesAt408 m = (lat m = Num False 408 (- 1))"

section \<open>Strings\<close>

lemma startsWith_iff: "startsWith s t \<longleftrightarrow> (\<exists>ss. s = t @ ss)"
  by (induction s t rule: startsWith.induct) auto

lemma str_includes_iff: "str_includes s t \<longleftrightarrow> (\<exists>ps ss. s = ps @ t @ ss)"
proof (induction s)
  case Nil
  then show ?case by auto
next
  case (Cons c cs)
  show ?case
  proof
    assume "str_includes (c # cs) t"
    then consider "startsWith (c # cs) t" | "str_includes cs t" by auto
    then show "\<exists>ps ss. c # cs = ps @ t @ ss"
    proof cases
      case 1
      then obtain ss where "c # cs = t @ ss" by (auto simp: startsWith_iff)
      then have "c # cs = [] @ t @ ss" by simp
      then show ?thesis by blast
    next
      case 2
      then obtain ps ss where "cs = ps @ t @ ss" using Cons.IH by blast
      then have "c # cs = (c # ps) @ t @ ss" by simp
      then show ?thesis by blast
    qed
  next
    assume "\<exists>ps ss. c # cs = ps @ t @ ss"
    then obtain ps ss where eq: "c # cs = ps @ t @ ss" by blast
    show "str_includes (c # cs) t"
    proof (cases ps)
      case Nil
      then have "startsWith (c # cs) t" using eq by (auto simp: startsWith_iff)
      then show ?thesis by simp
    next
      case (Cons p ps')
      then have "cs = ps' @ t @ ss" using eq by simp
      then have "str_includes cs t" using Cons.IH by blast
      then show ?thesis by simp
    qed
  qed
qed

lemma toLowerCase_Nil: "toLowerCase s = [] \<longleftrightarrow> s = []"
  by (simp add: toLowerCase_def)

lemma join_eq:
  "join xs sep = (case xs of [] \<Rightarrow> [] | v # vs \<Rightarrow> v @ concat (map (\<lambda>w. sep @ w) vs))"
  by (induction xs sep rule: join.induct) simp_all

lemma join_empty_separator: "join xs [] = concat xs"
  by (induction xs "[] :: string" rule: join.induct) simp_all

lemma toLowerCase_empty: "toLowerCase [] = []"
  by (simp add: toLowerCase_def)

section \<open>The example rows evaluated\<close>

text \<open>The equations that evaluate \<open>parseFloat\<close> on a literal.\<close>

lemmas parseFloat_eval =
  parseFloat_def strUnsignedDecimalLiteral_def isWhiteSpace_def isDigit_def digitsVal_def
  mkNum_def overflows_def exponentPart_def hasDigits_def signedInteger_def get_def objectPrototypeMembers_def

lemma coords_rowCafe:
  "parseFloat (get rowCafe ''latitude'') = Num False 407 (- 1)"
  "parseFloat (get rowCafe ''longitude'') = Num True 740 (- 1)"
  by (simp_all add: rowCafe_def parseFloat_eval)

lemma coords_rowBad:
  "parseFloat (get rowBad ''latitude'') = NaN"
  "parseFloat (get rowBad ''longitude'') = Num True 740 (- 1)"
  by (simp_all add: rowBad_def parseFloat_eval)

lemma coords_rowBar:
  "parseFloat (get rowBar ''latitude'') = Num False 408 (- 1)"
  "parseFloat (get rowBar ''longitude'') = Num True 740 (- 1)"
  by (simp_all add: rowBar_def parseFloat_eval)

lemma coords_rowInfinity:
  "parseFloat (get rowInfinity ''latitude'') = Infinity False"
  "parseFloat (get rowInfinity ''longitude'') = Num True 740 (- 1)"
  by (simp_all add: rowInfinity_def parseFloat_eval)

lemma isFoodDrink_rowBar: "isFoodDrink rowBar"
  by (simp add: isFoodDrink_def rowBar_def get_def toLowerCase_def toLowerChar_def
      objectPrototypeMembers_def)

lemma isFoodDrink_rowCafe: "isFoodDrink rowCafe"
  by (simp add: isFoodDrink_def rowCafe_def get_def toLowerCase_def toLowerChar_def
      objectPrototypeMembers_def)

lemma hasText_two_rows:
  "hasText rowCafe ''latitude''" "hasText rowCafe ''longitude''"
  "hasText rowBad ''latitude''" "hasText rowBad ''longitude''"
  by (simp_all add: hasText_def rowCafe_def rowBad_def)

lemma uniqueValues_two: "uniqueValues [rowCafe, rowBar] ''category'' = [''Bar'', ''Cafe'']"
  by (simp add: uniqueValues_def rowCafe_def rowBar_def get_def objectPrototypeMembers_def)

lemma uniqueValues_venue: "uniqueValues [rowFoodVenue] ''categoriesPrimary.name'' = [''Food'']"
  by (simp add: uniqueValues_def rowFoodVenue_def get_def objectPrototypeMembers_def)

section \<open>One pass of createMarkers\<close>

lemma foldl_layers:
  "layers (pg (foldl (forEachRow raises) s rows)) = layers (pg s) @ rendered raises rows"
  by (induction rows arbitrary: s) (simp_all add: forEachRow_def rendered_def Let_def)

lemma foldl_totalMarkers:
  "totalMarkers (foldl (forEachRow raises) s rows) = totalMarkers s + length (rendered raises rows)"
  by (induction rows arbitrary: s) (simp_all add: forEachRow_def rendered_def Let_def)

lemma foldl_foodDrinkCount:
  "foodDrinkCount (foldl (forEachRow raises) s rows) =
     foodDrinkCount s + length (filter (\<lambda>r. \<not> invalidCoordinates r \<and> isFoodDrink r) rows)"
  by (induction rows arbitrary: s) (simp_all add: forEachRow_def Let_def)

lemma foldl_console:
  "console (pg (foldl (forEachRow raises) s rows)) =
     console (pg s) @ concat (map (logged raises) rows)"
  by (induction rows arbitrary: s) (simp_all add: forEachRow_def logged_def Let_def)

lemma foldl_filtersDiv:
  "filtersDiv (pg (foldl (forEachRow raises) s rows)) = filtersDiv (pg s)"
  by (induction rows arbitrary: s) (simp_all add: forEachRow_def Let_def)

lemma createMarkers_layers: "layers (createMarkers raises rows st) = rendered raises rows"
  by (simp add: createMarkers_def Let_def foldl_layers)

lemma createMarkers_total:
  "total_markers (createMarkers raises rows st) = length (rendered raises rows)"
  by (simp add: createMarkers_def Let_def foldl_totalMarkers)

lemma createMarkers_visible:
  "visible_markers (createMarkers raises rows st) = length (rendered raises rows)"
  by (simp add: createMarkers_def Let_def foldl_totalMarkers)

lemma createMarkers_food:
  "food_drink_markers (createMarkers raises rows st) =
     length (filter (\<lambda>r. \<not> invalidCoordinates r \<and> isFoodDrink r) rows)"
  by (simp add: createMarkers_def Let_def foldl_foodDrinkCount)

lemma createMarkers_console:
  "console (createMarkers raises rows st) = console st @ concat (map (logged raises) rows)"
  by (simp add: createMarkers_def Let_def foldl_console)

lemma createMarkers_filtersDiv:
  "filtersDiv (createMarkers raises rows st) = filtersDiv st"
  by (simp add: createMarkers_def Let_def foldl_filtersDiv)

lemma applyFilters_layers:
  "layers (applyFilters raises data searchValue filterSelects st) =
     rendered raises (filteredData data searchValue filterSelects)"
  by (simp add: applyFilters_def createMarkers_layers)

lemma rendered_append: "rendered raises (xs @ ys) = rendered raises xs @ rendered raises ys"
  by (simp add: rendered_def)

lemma rendered_Cons:
  "rendered raises (r # ys) =
     (if \<not> invalidCoordinates r \<and> \<not> raises (markerOf r) then markerOf r # rendered raises ys
      else rendered raises ys)"
  by (simp add: rendered_def)

lemma isFinite_not_NaN: "isFinite n \<Longrightarrow> n \<noteq> NaN"
  by (cases n) simp_all

section \<open>The loader's filter\<close>

lemma truthy_hasCoords: "truthy (hasCoords r) \<longleftrightarrow> hasText r ''latitude'' \<and> hasText r ''longitude''"
  by (auto simp: hasCoords_def js_and_def get_def hasText_def objectPrototypeMembers_def
      split: option.splits)

lemma validRows_eq:
  "validRows rows = filter (\<lambda>r. hasText r ''latitude'' \<and> hasText r ''longitude'') rows"
  by (simp add: validRows_def truthy_hasCoords)

section \<open>The values of a column\<close>

lemma set_newSet: "set (newSet xs) = set xs"
  by (induction xs) auto

lemma distinct_newSet: "distinct (newSet xs)"
  by (induction xs) (auto simp: set_newSet)

text \<open>
  A column that is not named like an inherited member reads as a string or \<open>undefined\<close>.
\<close>

lemma get_plain:
  assumes "c \<notin> set objectPrototypeMembers"
  shows "get item c = (case map_of item c of None \<Rightarrow> Undefined | Some v \<Rightarrow> Str v)"
  using assms by (simp add: get_def split: option.splits)

lemma truthy_values_plain:
  assumes "c \<notin> set objectPrototypeMembers"
  shows "filter truthy (newSet (map (\<lambda>item. get item c) data)) =
         map Str (map ToString (filter truthy (newSet (map (\<lambda>item. get item c) data))))"
proof -
  have "\<And>x. x \<in> set (filter truthy (newSet (map (\<lambda>item. get item c) data))) \<Longrightarrow>
      Str (ToString x) = x"
  proof -
    fix x
    assume "x \<in> set (filter truthy (newSet (map (\<lambda>item. get item c) data)))"
    then obtain item where "x = get item c" and "truthy x"
      by (auto simp: set_newSet)
    then show "Str (ToString x) = x"
      using assms by (cases x) (auto simp: get_plain split: option.splits)
  qed
  then have "map (\<lambda>x. Str (ToString x)) (filter truthy (newSet (map (\<lambda>item. get item c) data))) =
      filter truthy (newSet (map (\<lambda>item. get item c) data))"
    by (intro map_idI) auto
  then show ?thesis
    by (simp add: comp_def)
qed

lemma set_uniqueValues:
  assumes "c \<notin> set objectPrototypeMembers"
  shows "set (uniqueValues data c) = distinctValues data c"
proof (rule set_eqI)
  fix v
  have "v \<in> set (uniqueValues data c) \<longleftrightarrow>
      (\<exists>item \<in> set data. truthy (get item c) \<and> ToString (get item c) = v)"
    by (auto simp: uniqueValues_def set_newSet)
  also have "\<dots> \<longleftrightarrow> (\<exists>item \<in> set data. v \<noteq> [] \<and> map_of item c = Some v)"
    using assms by (auto simp: get_plain split: option.splits)
  finally show "v \<in> set (uniqueValues data c) \<longleftrightarrow> v \<in> distinctValues data c"
    by (auto simp: distinctValues_def)
qed

lemma distinct_uniqueValues:
  assumes "c \<notin> set objectPrototypeMembers"
  shows "distinct (uniqueValues data c)"
proof -
  let ?L = "filter truthy (newSet (map (\<lambda>item. get item c) data))"
  have "distinct ?L"
    by (simp add: distinct_newSet)
  then have "distinct (map Str (map ToString ?L))"
    using truthy_values_plain [OF assms, of data] by simp
  then have "distinct (map ToString ?L)"
    using distinct_map [of Str "map ToString ?L"] by blast
  then show ?thesis
    by (simp add: uniqueValues_def)
qed

lemma sorted_uniqueValues: "sorted (uniqueValues data c)"
  by (simp add: uniqueValues_def)

lemma uniqueValues_eq:
  assumes "c \<notin> set objectPrototypeMembers"
  shows "uniqueValues data c = sorted_list_of_set (distinctValues data c)"
proof -
  have "sorted_list_of_set (set (uniqueValues data c)) = uniqueValues data c"
    by (rule sorted_list_of_set.idem_if_sorted_distinct
        [OF sorted_uniqueValues distinct_uniqueValues [OF assms]])
  then show ?thesis
    by (simp add: set_uniqueValues [OF assms])
qed

lemma length_uniqueValues:
  assumes "c \<notin> set objectPrototypeMembers"
  shows "length (uniqueValues data c) = card (distinctValues data c)"
  using distinct_card [OF distinct_uniqueValues [OF assms], of data]
  by (simp add: set_uniqueValues [OF assms])

lemma uniqueValues_Nil:
  assumes "c \<notin> set objectPrototypeMembers"
  shows "uniqueValues data c = [] \<longleftrightarrow> card (distinctValues data c) = 0"
  using length_uniqueValues [OF assms, of data] by auto

section \<open>The claims\<close>

text \<open>
  Claim C1: on a successful load \<open>loadCSV\<close> hands the parsed rows to its caller, and
  \<open>createFilterControls\<close> receives them. The code does not: \<open>loadCSV\<close> has no \<open>return\<close>,
  so the handler awaits \<open>undefined\<close>, \<open>createFilterControls\<close> throws a TypeError after it
  has appended the search box, and no dropdown is built, although the same call on the
  parsed rows would build the dropdown of the category column.
\<close>

theorem loadCSV_returns_undefined:
  "fst (loadCSV (\<lambda>t. [rowCafe, rowBar]) (\<lambda>m. False) (Fulfilled (Response True 200 csvText))) =
     Inr UndefinedData \<and>
   createFilterControls UndefinedData initialPage =
     (Inl TypeError, initialPage\<lparr>filtersDiv := [SearchGroup]\<rparr>) \<and>
   fst (onDOMContentLoaded (\<lambda>t. [rowCafe, rowBar]) (\<lambda>m. False)
     (Fulfilled (Response True 200 csvText)) initialPage) = Inl TypeError \<and>
   filtersDiv (snd (onDOMContentLoaded (\<lambda>t. [rowCafe, rowBar]) (\<lambda>m. False)
     (Fulfilled (Response True 200 csvText)) initialPage)) = [SearchGroup] \<and>
   filtersDiv (snd (createFilterControls (Rows [rowCafe, rowBar]) initialPage)) =
     [SearchGroup,
      FilterGroup \<lparr>label_text = ''CATEGORY'', innerHTML = selectHTML ''category'' [''Bar'', ''Cafe''], sel_value = []\<rparr>]"
proof -
  have g: "filterGroups [rowCafe, rowBar] =
     [\<lparr>label_text = ''CATEGORY'', innerHTML = selectHTML ''category'' [''Bar'', ''Cafe''], sel_value = []\<rparr>]"
    by (simp add: filterGroups_def filterableColumns_def columns_def Object_keys_def rowCafe_def
        filterGroup_def uniqueValues_two [unfolded rowCafe_def] toUpperCase_def toUpperChar_def
        replace_underscores_def)
  have v: "validRows [rowCafe, rowBar] = [rowCafe, rowBar]"
    by (simp add: validRows_def hasCoords_def js_and_def get_def rowCafe_def rowBar_def
        objectPrototypeMembers_def)
  show ?thesis
    by (simp add: loadCSV_def onDOMContentLoaded_def createFilterControls_def g chain_def
        checkResponse_def parseAndRender_def Let_def v createMarkers_filtersDiv initialPage_def)
qed

text \<open>
  Claim C2, as the code has it: the loader keeps for \<open>createMarkers\<close> exactly the rows whose
  latitude and longitude are both present and not the empty string, whether or not they
  parse to numbers, and logs the others. (With no row parsed, the chain throws before
  the filter.)
\<close>

theorem loader_keeps_rows_with_coordinate_text:
  assumes "parse csvText \<noteq> []"
  shows "chain parse raises (Fulfilled (Response True code csvText)) st =
     createMarkers raises
       (filter (\<lambda>r. hasText r ''latitude'' \<and> hasText r ''longitude'') (parse csvText))
       (st\<lparr>console := console st @
          map RowMissingCoordinates
            (filter (\<lambda>r. \<not> (hasText r ''latitude'' \<and> hasText r ''longitude'')) (parse csvText))\<rparr>)"
  using assms
  by (simp add: chain_def checkResponse_def parseAndRender_def Let_def validRows_eq truthy_hasCoords)

text \<open>
  On the two-row input with the latitudes \<open>40.7\<close> and \<open>bad\<close> the loader keeps both rows;
  the second is left out by the pass, whose counters end at 1 and 1.
\<close>

theorem loader_keeps_rows_with_coordinate_text_witness:
  "chain (\<lambda>t. [rowCafe, rowBad]) (\<lambda>m. False) (Fulfilled (Response True 200 [])) initialPage =
     createMarkers (\<lambda>m. False) [rowCafe, rowBad] initialPage \<and>
   total_markers (createMarkers (\<lambda>m. False) [rowCafe, rowBad] initialPage) = 1 \<and>
   food_drink_markers (createMarkers (\<lambda>m. False) [rowCafe, rowBad] initialPage) = 1"
proof -
  have "chain (\<lambda>t. [rowCafe, rowBad]) (\<lambda>m. False) (Fulfilled (Response True 200 [])) initialPage =
     createMarkers (\<lambda>m. False) [rowCafe, rowBad] initialPage"
    using loader_keeps_rows_with_coordinate_text
      [where parse = "\<lambda>t. [rowCafe, rowBad]" and csvText = "[]" and raises = "\<lambda>m. False"
        and code = 200 and st = initialPage]
    by (simp add: hasText_two_rows)
  moreover have "invalidCoordinates rowBad" "\<not> invalidCoordinates rowCafe"
    by (simp_all add: invalidCoordinates_def isNaN_def coords_rowBad coords_rowCafe)
  ultimately show ?thesis
    by (simp add: createMarkers_total createMarkers_food rendered_def isFoodDrink_rowCafe)
qed

text \<open>
  The claim as stated fails there: the loader yields two rows, and the latitude of the
  second parses to \<open>NaN\<close>, no finite number.
\<close>

theorem loader_keeps_unparseable_latitude:
  "validRows [rowCafe, rowBad] = [rowCafe, rowBad] \<and>
   length (validRows [rowCafe, rowBad]) = 2 \<and>
   parseFloat (get rowBad ''latitude'') = NaN \<and>
   \<not> isFinite (parseFloat (get rowBad ''latitude''))"
  by (simp add: validRows_eq hasText_two_rows coords_rowBad)

text \<open>
  Claim C3: a dropdown with a non-empty selected value \<open>v\<close> for the column \<open>c\<close> keeps the
  rows with \<open>r[c] === v\<close>, on the original column name. The code reads the column back
  from the label, upper-cased and then lower-cased: for the column
  \<open>categoriesPrimary.name\<close> it compares \<open>r['categoriesprimary.name']\<close>, which is
  \<open>undefined\<close>, and selecting \<open>Food\<close> leaves no row, although the row has that value.
\<close>

theorem mixed_case_column_filter_excludes_all:
  "filterGroups [rowFoodVenue] =
     [\<lparr>label_text = ''CATEGORIESPRIMARY.NAME'', innerHTML = selectHTML ''categoriesPrimary.name'' [''Food''], sel_value = []\<rparr>] \<and>
   get rowFoodVenue ''categoriesPrimary.name'' = Str ''Food'' \<and>
   filteredData [rowFoodVenue] []
     [\<lparr>label_text = ''CATEGORIESPRIMARY.NAME'', innerHTML = selectHTML ''categoriesPrimary.name'' [''Food''], sel_value = ''Food''\<rparr>] = []"
proof -
  have g: "filterGroups [rowFoodVenue] =
     [\<lparr>label_text = ''CATEGORIESPRIMARY.NAME'', innerHTML = selectHTML ''categoriesPrimary.name'' [''Food''], sel_value = []\<rparr>]"
    by (simp add: filterGroups_def filterableColumns_def columns_def Object_keys_def
        rowFoodVenue_def filterGroup_def uniqueValues_venue [unfolded rowFoodVenue_def]
        toUpperCase_def toUpperChar_def replace_underscores_def)
  have l: "toLowerCase ''CATEGORIESPRIMARY.NAME'' = ''categoriesprimary.name''"
    by (simp add: toLowerCase_def toLowerChar_def)
  have a: "get rowFoodVenue ''categoriesPrimary.name'' = Str ''Food''"
    "get rowFoodVenue ''categoriesprimary.name'' = Undefined"
    by (simp_all add: get_def rowFoodVenue_def objectPrototypeMembers_def)
  show ?thesis
    by (simp add: g a filteredData_def filterValuesOf_def filterItem_def l toLowerCase_empty)
qed

text \<open>
  What the code compares: the property named by the lowered text of the label.
\<close>

lemma column_filter_reads_label_text:
  assumes "sel_value sel \<noteq> []"
  shows "r \<in> set (filteredData data [] [sel]) \<longleftrightarrow>
     r \<in> set data \<and> get r (toLowerCase (label_text sel)) = Str (sel_value sel)"
  using assms
  by (simp add: filteredData_def filterValuesOf_def filterItem_def toLowerCase_empty)

text \<open>
  The example of the claim holds, its column name being lower case with no underscore.
\<close>

lemma category_filter_example:
  "filteredData [rowBar, rowFood, rowBar] []
     [\<lparr>label_text = ''CATEGORY'', innerHTML = selectHTML ''category'' [''Bar'', ''Food''], sel_value = ''Bar''\<rparr>] =
   [rowBar, rowBar]"
proof -
  have l: "toLowerCase ''CATEGORY'' = ''category''"
    by (simp add: toLowerCase_def toLowerChar_def)
  have a: "get rowBar ''category'' = Str ''Bar''" "get rowFood ''category'' = Str ''Food''"
    by (simp_all add: get_def rowBar_def rowFood_def objectPrototypeMembers_def)
  show ?thesis
    by (simp add: a filteredData_def filterValuesOf_def filterItem_def l toLowerCase_empty)
qed

text \<open>
  Claim C4: after every pass of \<open>createMarkers\<close> the layers of the marker group are exactly
  the markers built from the rows passed in, in their order (a row is left out when its
  coordinate check fails or its construction throws). The layers the group held before
  the pass have no part in the result: the pass clears them first.
\<close>

theorem createMarkers_replaces_layers:
  "layers (createMarkers raises rows st) =
     map markerOf (filter (\<lambda>r. \<not> invalidCoordinates r \<and> \<not> raises (markerOf r)) rows)
   \<and> layers (createMarkers raises rows st) = layers (createMarkers raises rows st')"
proof -
  have "layers (pg (foldl (forEachRow raises) s rows)) = layers (pg s) @ rendered raises rows"
    for s
    by (rule foldl_layers)
  then have "layers (createMarkers raises rows st) = rendered raises rows" for st
    by (simp add: createMarkers_def Let_def)
  then show ?thesis
    by (simp add: rendered_def)
qed

text \<open>
  Claim C5: a row is in the filtered data iff it is a row of the data, it passes the search
  predicate and it passes the column filters. The search predicate: the search string is
  empty, or the lowered text made of all the values of the row in their order, with one
  space between two values, contains the lowered search string.
\<close>

theorem search_term_matches:
  "r \<in> set (filteredData data s sels) \<longleftrightarrow>
     r \<in> set data \<and>
     (s = [] \<or>
      (\<exists>ps ss.
         toLowerCase
           (case map snd r of [] \<Rightarrow> [] | v # vs \<Rightarrow> v @ concat (map (\<lambda>w. '' '' @ w) vs)) =
         ps @ toLowerCase s @ ss)) \<and>
     list_all
       (\<lambda>sel. sel_value sel = [] \<or> get r (toLowerCase (label_text sel)) = Str (sel_value sel))
       sels"
proof -
  have cols: "list_all (\<lambda>(column, v). if v = [] then True else get r column = Str v)
        (filterValuesOf sels) =
      list_all
        (\<lambda>sel. sel_value sel = [] \<or> get r (toLowerCase (label_text sel)) = Str (sel_value sel))
        sels"
    by (induction sels) (simp_all add: filterValuesOf_def)
  have hay: "join (Object_values r) '' '' =
      (case map snd r of [] \<Rightarrow> [] | v # vs \<Rightarrow> v @ concat (map (\<lambda>w. '' '' @ w) vs))"
    unfolding Object_values_def by (rule join_eq)
  have item: "filterItem (toLowerCase s) (filterValuesOf sels) r \<longleftrightarrow>
      (s = [] \<or>
       (\<exists>ps ss.
          toLowerCase
            (case map snd r of [] \<Rightarrow> [] | v # vs \<Rightarrow> v @ concat (map (\<lambda>w. '' '' @ w) vs)) =
          ps @ toLowerCase s @ ss)) \<and>
      list_all
        (\<lambda>sel. sel_value sel = [] \<or> get r (toLowerCase (label_text sel)) = Str (sel_value sel))
        sels"
    unfolding filterItem_def cols hay
    by (auto simp: toLowerCase_Nil str_includes_iff)
  show ?thesis
    by (simp add: filteredData_def item)
qed

text \<open>
  The row with the name \<open>Blue Bar\<close> and the category \<open>Bar\<close> matches \<open>blue\<close> and \<open>BAR\<close>, and
  \<open>Bar Bar\<close> across the space between its two values, but neither \<open>BarBar\<close> nor \<open>red\<close>. A
  row of three values matches in its last value, across both spaces, and not with two
  spaces for one.
\<close>

theorem search_term_matches_witness:
  "rowBlueBar \<in> set (filteredData [rowBlueBar] ''blue'' []) \<and>
   rowBlueBar \<in> set (filteredData [rowBlueBar] ''BAR'' []) \<and>
   rowBlueBar \<in> set (filteredData [rowBlueBar] ''Bar Bar'' []) \<and>
   rowBlueBar \<notin> set (filteredData [rowBlueBar] ''BarBar'' []) \<and>
   rowBlueBar \<notin> set (filteredData [rowBlueBar] ''red'' []) \<and>
   rowCafe \<in> set (filteredData [rowCafe] ''CAFE'' []) \<and>
   rowCafe \<in> set (filteredData [rowCafe] ''40.7 -74.0 Cafe'' []) \<and>
   rowCafe \<notin> set (filteredData [rowCafe] ''40.7  -74.0'' []) \<and>
   rowCafe \<in> set (filteredData [rowCafe] [] [])"
proof -
  have pos: "r \<in> set (filteredData [r] s [])"
    if "str_includes
          (toLowerCase
            (case map snd r of [] \<Rightarrow> [] | v # vs \<Rightarrow> v @ concat (map (\<lambda>w. '' '' @ w) vs)))
          (toLowerCase s)" for r s
    using that search_term_matches [of r "[r]" s "[]"]
    by (simp add: str_includes_iff)
  have neg: "r \<notin> set (filteredData [r] s [])"
    if "s \<noteq> []" and
       "\<not> str_includes
          (toLowerCase
            (case map snd r of [] \<Rightarrow> [] | v # vs \<Rightarrow> v @ concat (map (\<lambda>w. '' '' @ w) vs)))
          (toLowerCase s)" for r s
    using that search_term_matches [of r "[r]" s "[]"]
    by (simp add: str_includes_iff)
  have "rowBlueBar \<in> set (filteredData [rowBlueBar] ''blue'' [])"
    by (rule pos) (simp add: rowBlueBar_def toLowerCase_def toLowerChar_def)
  moreover have "rowBlueBar \<in> set (filteredData [rowBlueBar] ''BAR'' [])"
    by (rule pos) (simp add: rowBlueBar_def toLowerCase_def toLowerChar_def)
  moreover have "rowBlueBar \<in> set (filteredData [rowBlueBar] ''Bar Bar'' [])"
    by (rule pos) (simp add: rowBlueBar_def toLowerCase_def toLowerChar_def)
  moreover have "rowBlueBar \<notin> set (filteredData [rowBlueBar] ''BarBar'' [])"
    by (rule neg) (simp_all add: rowBlueBar_def toLowerCase_def toLowerChar_def)
  moreover have "rowBlueBar \<notin> set (filteredData [rowBlueBar] ''red'' [])"
    by (rule neg) (simp_all add: rowBlueBar_def toLowerCase_def toLowerChar_def)
  moreover have "rowCafe \<in> set (filteredData [rowCafe] ''CAFE'' [])"
    by (rule pos) (simp add: rowCafe_def toLowerCase_def toLowerChar_def)
  moreover have "rowCafe \<in> set (filteredData [rowCafe] ''40.7 -74.0 Cafe'' [])"
    by (rule pos) (simp add: rowCafe_def toLowerCase_def toLowerChar_def)
  moreover have "rowCafe \<notin> set (filteredData [rowCafe] ''40.7  -74.0'' [])"
    by (rule neg) (simp_all add: rowCafe_def toLowerCase_def toLowerChar_def)
  moreover have "rowCafe \<in> set (filteredData [rowCafe] [] [])"
    using search_term_matches [of rowCafe "[rowCafe]" "[]" "[]"] by simp
  ultimately show ?thesis
    by blast
qed

text \<open>
  Claim C6, as the code has it: \<open>createFilterControls\<close> leaves in the panel the search box
  and then, in the order of the keys of the first row, one dropdown for every key of the
  first row that is none of \<open>latitude\<close>, \<open>longitude\<close>, \<open>name\<close>, \<open>title\<close> and whose number
  of distinct non-empty values across all rows is above 0 and below 50. The dropdown is
  written with the option \<open>All\<close> and then one option for each of these values, each once,
  in ascending order. The statement is for a first row with no key named like a member of
  \<open>Object.prototype\<close>.
\<close>

theorem createFilterControls_dropdowns:
  assumes \<open>list_all (\<lambda>c. c \<notin> set objectPrototypeMembers)
             (case data of [] \<Rightarrow> [] | item # rest \<Rightarrow> map fst item)\<close>
  shows \<open>filtersDiv (snd (createFilterControls (Rows data) st)) =
     SearchGroup #
     map (\<lambda>c. FilterGroup
            \<lparr>label_text = toUpperCase (replace_underscores c),
             innerHTML =
               ''\<newline>                <option value="">All '' @ c @ ''</option>\<newline>                '' @
               concat (map (\<lambda>v. ''<option value="'' @ v @ ''">'' @ v @ ''</option>'')
                         (sorted_list_of_set (distinctValues data c))) @
               ''\<newline>            '',
             sel_value = []\<rparr>)
       (filter (\<lambda>c. c \<notin> set [''latitude'', ''longitude'', ''name'', ''title''] \<and>
                    0 < card (distinctValues data c) \<and> card (distinctValues data c) < 50)
          (case data of [] \<Rightarrow> [] | item # rest \<Rightarrow> map fst item))\<close>
proof -
  define keys where "keys = (case data of [] \<Rightarrow> [] | item # rest \<Rightarrow> map fst item)"
  define G where \<open>G = (\<lambda>c.
      \<lparr>label_text = toUpperCase (replace_underscores c),
       innerHTML =
         ''\<newline>                <option value="">All '' @ c @ ''</option>\<newline>                '' @
         concat (map (\<lambda>v. ''<option value="'' @ v @ ''">'' @ v @ ''</option>'')
                   (sorted_list_of_set (distinctValues data c))) @
         ''\<newline>            '',
       sel_value = []\<rparr>)\<close>
  define Q where
    "Q = (\<lambda>c. 0 < card (distinctValues data c) \<and> card (distinctValues data c) < 50)"
  define E where "E = (\<lambda>c. c \<notin> set [''latitude'', ''longitude'', ''name'', ''title''])"
  have plain: "c \<notin> set objectPrototypeMembers" if "c \<in> set keys" for c
    using assms that by (simp add: keys_def list_all_iff)
  have one: "filterGroup data c = (if Q c then [G c] else [])" if "c \<in> set keys" for c
  proof -
    have opt: \<open>optionHTML = (\<lambda>v. ''<option value="'' @ v @ ''">'' @ v @ ''</option>'')\<close>
      by (rule ext) (simp add: optionHTML_def)
    have html: \<open>selectHTML c (uniqueValues data c) = innerHTML (G c)\<close>
      unfolding opt selectHTML_def join_empty_separator G_def uniqueValues_eq [OF plain [OF that]]
      by simp
    show ?thesis
      by (auto simp: filterGroup_def Let_def length_uniqueValues [OF plain [OF that]]
          uniqueValues_Nil [OF plain [OF that]] Q_def html)
        (simp_all add: G_def)
  qed
  have collect: "concat (map (\<lambda>c. if Q c then [G c] else []) xs) = map G (filter Q xs)" for xs
    by (induction xs) simp_all
  have cols: "columns data = keys"
    by (simp add: columns_def Object_keys_def keys_def split: list.splits)
  have fc: "filterableColumns data = filter E keys"
    by (simp add: filterableColumns_def cols E_def)
  have "filterGroups data = concat (map (\<lambda>c. if Q c then [G c] else []) (filter E keys))"
    unfolding filterGroups_def fc
    by (rule arg_cong [where f = concat], rule map_cong) (simp_all add: one)
  then have "filterGroups data = map G (filter (\<lambda>c. E c \<and> Q c) keys)"
    by (simp add: collect conj_commute)
  then have "filtersDiv (snd (createFilterControls (Rows data) st)) =
      SearchGroup # map (\<lambda>c. FilterGroup (G c)) (filter (\<lambda>c. E c \<and> Q c) keys)"
    by (simp add: createFilterControls_def comp_def)
  then show ?thesis
    by (simp add: G_def Q_def E_def keys_def)
qed

text \<open>
  For the two rows with the categories \<open>Cafe\<close> and \<open>Bar\<close>: the search box and the dropdown
  of the category, its options \<open>Bar\<close> and \<open>Cafe\<close> in this order.
\<close>

theorem createFilterControls_dropdowns_witness:
  \<open>list_all (\<lambda>c. c \<notin> set objectPrototypeMembers) (map fst rowCafe) \<and>
   filtersDiv (snd (createFilterControls (Rows [rowCafe, rowBar]) initialPage)) =
     [SearchGroup,
      FilterGroup
        \<lparr>label_text = ''CATEGORY'',
         innerHTML =
           ''\<newline>                <option value="">All category</option>\<newline>                '' @
           ''<option value="Bar">Bar</option><option value="Cafe">Cafe</option>'' @
           ''\<newline>            '',
         sel_value = []\<rparr>]\<close>
proof -
  have keys: "map fst rowCafe = [''latitude'', ''longitude'', ''category'']"
    by (simp add: rowCafe_def)
  have plain: "list_all (\<lambda>c. c \<notin> set objectPrototypeMembers) (map fst rowCafe)"
    by (simp add: keys objectPrototypeMembers_def)
  have dv: "distinctValues [rowCafe, rowBar] ''category'' = {''Bar'', ''Cafe''}"
    by (auto simp: distinctValues_def rowCafe_def rowBar_def)
  have sl: "sorted_list_of_set {''Bar'', ''Cafe''} = [''Bar'', ''Cafe'']"
    using sorted_list_of_set.idem_if_sorted_distinct [of "[''Bar'', ''Cafe'']"] by simp
  have card2: "card {''Bar'', ''Cafe''} = 2"
    by simp
  have label: "toUpperCase (replace_underscores ''category'') = ''CATEGORY''"
    by (simp add: toUpperCase_def toUpperChar_def replace_underscores_def)
  have \<open>filtersDiv (snd (createFilterControls (Rows [rowCafe, rowBar]) initialPage)) =
     [SearchGroup,
      FilterGroup
        \<lparr>label_text = ''CATEGORY'',
         innerHTML =
           ''\<newline>                <option value="">All category</option>\<newline>                '' @
           ''<option value="Bar">Bar</option><option value="Cafe">Cafe</option>'' @
           ''\<newline>            '',
         sel_value = []\<rparr>]\<close>
    using createFilterControls_dropdowns [where data = "[rowCafe, rowBar]" and st = initialPage] plain
    by (simp add: keys dv sl card2 label)
  with plain show ?thesis
    by simp
qed

text \<open>
  The claim as stated fails for a column the first row lacks: \<open>category\<close> has one distinct
  value here and is no coordinate or name field, and no dropdown is built.
\<close>

theorem column_missing_from_first_row_not_offered:
  "filtersDiv (snd (createFilterControls (Rows [rowShort, rowBar]) initialPage)) =
     [SearchGroup] \<and>
   ''category'' \<notin> set [''latitude'', ''longitude'', ''name'', ''title''] \<and>
   card (distinctValues [rowShort, rowBar] ''category'') = 1"
proof -
  have "distinctValues [rowShort, rowBar] ''category'' = {''Bar''}"
    by (auto simp: distinctValues_def rowShort_def rowBar_def)
  then have "card (distinctValues [rowShort, rowBar] ''category'') = 1"
    by simp
  moreover have "filtersDiv (snd (createFilterControls (Rows [rowShort, rowBar]) initialPage)) =
     [SearchGroup]"
    by (simp add: createFilterControls_def filterGroups_def filterableColumns_def columns_def
        Object_keys_def rowShort_def initialPage_def)
  ultimately show ?thesis by simp
qed

text \<open>
  Outside the hypothesis: for a column named \<open>constructor\<close>, a row that lacks it reads as
  the inherited function, whose text is counted and written as one more value.
\<close>

lemma inherited_member_is_a_value:
  "uniqueValues [rowAcme, rowShort] ''constructor'' =
     [''Acme'', ''function Object() { [native code] }'']"
  by (simp add: uniqueValues_def rowAcme_def rowShort_def get_def objectPrototypeMembers_def)

text \<open>
  Claim C7, as the code has it: when the fetch is rejected or its response is not ok, the
  error is caught and logged inside \<open>loadCSV\<close> and is not propagated: the promise the
  caller awaits is fulfilled with \<open>undefined\<close>. The chain runs once, changes the page by
  that console line only, and the page that started empty ends with no marker.
\<close>

theorem failed_fetch_is_logged_not_propagated:
  assumes "f = Rejected \<or> (\<exists>r. f = Fulfilled r \<and> \<not> ok r)"
  shows "fst (loadCSV parse raises f) = Inr UndefinedData \<and>
         snd (loadCSV parse raises f) st =
           st\<lparr>console := console st @
             [ErrorLoadingCSV
               (case f of Rejected \<Rightarrow> NetworkError | Fulfilled r \<Rightarrow> HTTPError (status r))]\<rparr> \<and>
         layers (snd (onDOMContentLoaded parse raises f initialPage)) = []"
  using assms
  by (auto simp: loadCSV_def chain_def checkResponse_def catchError_def onDOMContentLoaded_def
      createFilterControls_def initialPage_def)

theorem failed_fetch_is_logged_not_propagated_witness:
  "fst (loadCSV (\<lambda>t. []) (\<lambda>m. False) (Fulfilled (Response False 404 []))) = Inr UndefinedData \<and>
   console (snd (loadCSV (\<lambda>t. []) (\<lambda>m. False) (Fulfilled (Response False 404 []))) initialPage) =
     [ErrorLoadingCSV (HTTPError 404)] \<and>
   layers (snd (onDOMContentLoaded (\<lambda>t. []) (\<lambda>m. False) (Fulfilled (Response False 404 []))
     initialPage)) = []"
  using failed_fetch_is_logged_not_propagated
    [where f = "Fulfilled (Response False 404 [])" and parse = "\<lambda>t. []" and raises = "\<lambda>m. False"
      and st = initialPage]
  by (simp add: initialPage_def)

text \<open>
  The claim as stated fails on a rejected fetch: the caller awaits \<open>undefined\<close>, not an
  error; the handler goes on, and the search box is on the page when it ends.
\<close>

theorem failed_fetch_reaches_no_caller:
  "fst (loadCSV (\<lambda>t. []) (\<lambda>m. False) Rejected) = Inr UndefinedData \<and>
   fst (onDOMContentLoaded (\<lambda>t. []) (\<lambda>m. False) Rejected initialPage) = Inl TypeError \<and>
   filtersDiv (snd (onDOMContentLoaded (\<lambda>t. []) (\<lambda>m. False) Rejected initialPage)) = [SearchGroup]"
  by (simp add: loadCSV_def chain_def catchError_def onDOMContentLoaded_def
      createFilterControls_def initialPage_def)

text \<open>
  Claim C8, as the code has it: the check skips a row iff \<open>parseFloat\<close> of its latitude or
  of its longitude is \<open>NaN\<close>. A skipped row is logged, adds no marker and changes no
  counter, and the pass goes on. A row whose coordinates both parse to finite numbers is
  never skipped, and a row that is not skipped and whose construction does not throw is
  rendered in its place.
\<close>

theorem coordinate_check_skips_NaN:
  "(invalidCoordinates r \<longleftrightarrow>
      parseFloat (get r ''latitude'') = NaN \<or> parseFloat (get r ''longitude'') = NaN) \<and>
   (isFinite (parseFloat (get r ''latitude'')) \<and> isFinite (parseFloat (get r ''longitude''))
      \<longrightarrow> \<not> invalidCoordinates r) \<and>
   (invalidCoordinates r \<longrightarrow>
      InvalidCoordinates r \<in> set (console (createMarkers raises (xs @ r # ys) st)) \<and>
      layers (createMarkers raises (xs @ r # ys) st) = layers (createMarkers raises (xs @ ys) st) \<and>
      total_markers (createMarkers raises (xs @ r # ys) st) =
        total_markers (createMarkers raises (xs @ ys) st) \<and>
      food_drink_markers (createMarkers raises (xs @ r # ys) st) =
        food_drink_markers (createMarkers raises (xs @ ys) st)) \<and>
   (\<not> invalidCoordinates r \<and> \<not> raises (markerOf r) \<longrightarrow>
      layers (createMarkers raises (xs @ r # ys) st) =
        layers (createMarkers raises xs st) @ markerOf r # layers (createMarkers raises ys st))"
proof (intro conjI impI)
  show "invalidCoordinates r \<longleftrightarrow>
      parseFloat (get r ''latitude'') = NaN \<or> parseFloat (get r ''longitude'') = NaN"
    by (simp add: invalidCoordinates_def isNaN_def)
next
  assume "isFinite (parseFloat (get r ''latitude'')) \<and> isFinite (parseFloat (get r ''longitude''))"
  then show "\<not> invalidCoordinates r"
    by (simp add: invalidCoordinates_def isNaN_def isFinite_not_NaN)
next
  assume inv: "invalidCoordinates r"
  then have "logged raises r = [InvalidCoordinates r]"
    by (simp add: logged_def)
  then show "InvalidCoordinates r \<in> set (console (createMarkers raises (xs @ r # ys) st))"
    by (simp add: createMarkers_console)
  show "layers (createMarkers raises (xs @ r # ys) st) = layers (createMarkers raises (xs @ ys) st)"
    using inv by (simp add: createMarkers_layers rendered_def)
  show "total_markers (createMarkers raises (xs @ r # ys) st) =
        total_markers (createMarkers raises (xs @ ys) st)"
    using inv by (simp add: createMarkers_total rendered_def)
  show "food_drink_markers (createMarkers raises (xs @ r # ys) st) =
        food_drink_markers (createMarkers raises (xs @ ys) st)"
    using inv by (simp add: createMarkers_food)
next
  assume "\<not> invalidCoordinates r \<and> \<not> raises (markerOf r)"
  then show "layers (createMarkers raises (xs @ r # ys) st) =
        layers (createMarkers raises xs st) @ markerOf r # layers (createMarkers raises ys st)"
    by (simp add: createMarkers_layers rendered_def)
qed

theorem coordinate_check_skips_NaN_witness:
  "invalidCoordinates rowBad \<and>
   layers (createMarkers (\<lambda>m. False) ([rowCafe] @ rowBad # []) initialPage) = [markerOf rowCafe] \<and>
   total_markers (createMarkers (\<lambda>m. False) ([rowCafe] @ rowBad # []) initialPage) = 1 \<and>
   \<not> invalidCoordinates rowCafe \<and>
   layers (createMarkers (\<lambda>m. False) ([] @ rowCafe # []) initialPage) = [markerOf rowCafe]"
proof -
  have b: "invalidCoordinates rowBad"
    by (simp add: invalidCoordinates_def isNaN_def coords_rowBad)
  have c: "\<not> invalidCoordinates rowCafe"
    by (simp add: invalidCoordinates_def isNaN_def coords_rowCafe)
  have one: "layers (createMarkers (\<lambda>m. False) [rowCafe] initialPage) = [markerOf rowCafe]"
    "total_markers (createMarkers (\<lambda>m. False) [rowCafe] initialPage) = 1"
    "layers (createMarkers (\<lambda>m. False) [] initialPage) = []"
    using c by (simp_all add: createMarkers_layers createMarkers_total rendered_def)
  show ?thesis
    using coordinate_check_skips_NaN [of rowBad "\<lambda>m. False" "[rowCafe]" "[]" initialPage]
      coordinate_check_skips_NaN [of rowCafe "\<lambda>m. False" "[]" "[]" initialPage] b c one
    by simp
qed

text \<open>
  The claim as stated fails for the latitude \<open>Infinity\<close>: it does not parse to a finite
  number, and the row is not skipped but rendered and counted.
\<close>

theorem infinite_coordinate_is_rendered:
  "\<not> isFinite (parseFloat (get rowInfinity ''latitude'')) \<and>
   \<not> invalidCoordinates rowInfinity \<and>
   layers (createMarkers (\<lambda>m. False) [rowInfinity] initialPage) = [markerOf rowInfinity] \<and>
   total_markers (createMarkers (\<lambda>m. False) [rowInfinity] initialPage) = 1"
  by (simp add: createMarkers_layers createMarkers_total rendered_def invalidCoordinates_def
      isNaN_def coords_rowInfinity)

text \<open>
  Claim C9: when the construction of the marker of a row throws, the error is logged with
  the row, and the rows after it are processed as they would be by themselves: the layers
  of the pass are those of the rows before followed by those of the rows after.
\<close>

theorem row_failure_is_isolated:
  assumes "\<not> invalidCoordinates r" and "raises (markerOf r)"
  shows "ErrorCreatingMarker r \<in> set (console (createMarkers raises (xs @ r # ys) st)) \<and>
         layers (createMarkers raises (xs @ r # ys) st) =
           layers (createMarkers raises xs st) @ layers (createMarkers raises ys st) \<and>
         total_markers (createMarkers raises (xs @ r # ys) st) =
           total_markers (createMarkers raises xs st) + total_markers (createMarkers raises ys st)"
proof -
  have "logged raises r = [ErrorCreatingMarker r]"
    using assms by (simp add: logged_def)
  then have "ErrorCreatingMarker r \<in> set (console (createMarkers raises (xs @ r # ys) st))"
    by (simp add: createMarkers_console)
  moreover have "rendered raises (xs @ r # ys) = rendered raises xs @ rendered raises ys"
    using assms by (simp add: rendered_append rendered_Cons)
  ultimately show ?thesis
    by (simp add: createMarkers_layers createMarkers_total)
qed

theorem row_failure_is_isolated_witness:
  "\<not> invalidCoordinates rowBar \<and> raisesAt408 (markerOf rowBar) \<and>
   ErrorCreatingMarker rowBar \<in>
     set (console (createMarkers raisesAt408 ([rowCafe] @ rowBar # [rowCafe]) initialPage)) \<and>
   layers (createMarkers raisesAt408 ([rowCafe] @ rowBar # [rowCafe]) initialPage) =
     [markerOf rowCafe, markerOf rowCafe]"
proof -
  have v: "\<not> invalidCoordinates rowBar"
    by (simp add: invalidCoordinates_def isNaN_def coords_rowBar)
  have r: "raisesAt408 (markerOf rowBar)"
    by (simp add: raisesAt408_def markerOf_def coords_rowBar)
  have c: "\<not> invalidCoordinates rowCafe" "\<not> raisesAt408 (markerOf rowCafe)"
    by (simp_all add: invalidCoordinates_def isNaN_def raisesAt408_def markerOf_def coords_rowCafe)
  have one: "layers (createMarkers raisesAt408 [rowCafe] initialPage) = [markerOf rowCafe]"
    using c by (simp add: createMarkers_layers rendered_def)
  show ?thesis
    using row_failure_is_isolated
      [where r = rowBar and raises = raisesAt408 and xs = "[rowCafe]" and ys = "[rowCafe]"
        and st = initialPage] v r one
    by simp
qed

text \<open>
  Claim C10: the food and drink count written never exceeds the total written, also when
  constructions throw. The code counts a food or drink row before it constructs the
  marker: for one such row whose construction throws it writes 1 and 0.
\<close>

theorem food_drink_counted_before_construction:
  "food_drink_markers (createMarkers (\<lambda>m. True) [rowBar] initialPage) = 1 \<and>
   total_markers (createMarkers (\<lambda>m. True) [rowBar] initialPage) = 0 \<and>
   layers (createMarkers (\<lambda>m. True) [rowBar] initialPage) = []"
  by (simp add: createMarkers_layers createMarkers_total createMarkers_food rendered_def
      invalidCoordinates_def isNaN_def coords_rowBar isFoodDrink_rowBar)

text \<open>Without a throwing construction the count stays within the total.\<close>

lemma food_drink_le_total_without_failure:
  "(\<And>r. r \<in> set rows \<Longrightarrow> \<not> raises (markerOf r)) \<Longrightarrow>
   food_drink_markers (createMarkers raises rows st) \<le> total_markers (createMarkers raises rows st)"
proof -
  assume a: "\<And>r. r \<in> set rows \<Longrightarrow> \<not> raises (markerOf r)"
  have "filter (\<lambda>r. \<not> invalidCoordinates r \<and> \<not> raises (markerOf r)) rows =
        filter (\<lambda>r. \<not> invalidCoordinates r) rows"
    using a by (intro filter_cong) auto
  moreover have "length (filter (\<lambda>r. \<not> invalidCoordinates r \<and> isFoodDrink r) rows) \<le>
        length (filter (\<lambda>r. \<not> invalidCoordinates r) rows)"
    by (induction rows) auto
  ultimately show ?thesis
    by (simp add: createMarkers_food createMarkers_total rendered_def)
qed

end
